theory Spec2Isabelle
  imports Main "HOL-Library.Sublist"
begin

section \<open>Values, exceptions and the environment of \<^verbatim>\<open>job_search.py\<close>\<close>

text \<open>
  The Python values that can come out of \<^verbatim>\<open>json.load\<close> and flow through the
  credential store. \<open>PNone\<close> is Python's \<^verbatim>\<open>None\<close>; a dict is an association list
  with string keys. JSON floats are left out: no function of the program inspects a number.
  Strings are \<open>char list\<close>; the few non-ASCII characters the program prints are written
  as their UTF-8 bytes.
\<close>

datatype pyval =
    PNone
  | PBool bool
  | PInt int
  | PStr string
  | PList "pyval list"
  | PDict "(string \<times> pyval) list"

text \<open>Python's truth value, as tested by \<^verbatim>\<open>if not api_key\<close> and \<^verbatim>\<open>if api_key\<close>.\<close>

fun truthy :: "pyval \<Rightarrow> bool" where
  "truthy PNone = False"
| "truthy (PBool b) = b"
| "truthy (PInt i) = (i \<noteq> 0)"
| "truthy (PStr s) = (s \<noteq> [])"
| "truthy (PList xs) = (xs \<noteq> [])"
| "truthy (PDict kvs) = (kvs \<noteq> [])"

text \<open>
  An exception (an instance of a subclass of \<^verbatim>\<open>Exception\<close>) is its class and the text
  that \<^verbatim>\<open>str(e)\<close> gives. \<^verbatim>\<open>SystemExit\<close>, raised by \<^verbatim>\<open>sys.exit\<close>, is not an
  \<^verbatim>\<open>Exception\<close> and is kept apart.
\<close>

datatype exn_class =
    AuthenticationError
  | JSONDecodeError
  | AttributeError
  | EOFError
  | OtherException string

datatype exn = Exn exn_class string

fun exn_class_of :: "exn \<Rightarrow> exn_class" where
  "exn_class_of (Exn c m) = c"

fun str_exn :: "exn \<Rightarrow> string" where
  "str_exn (Exn c m) = m"

datatype error = SystemExit nat | Uncaught exn

text \<open>The request handed to \<^verbatim>\<open>client.messages.create\<close> and the blocks it answers with.\<close>

record message =
  role :: string
  content :: string

record request =
  model :: string
  max_tokens :: nat
  tools :: "(string \<times> string) list list"
  messages :: "message list"

record block =
  block_type :: string
  block_text :: string

text \<open>
  The library functions the program calls and does not define: \<^verbatim>\<open>json.dump\<close>,
  \<^verbatim>\<open>json.load\<close> (on the text of the file), the remote call
  \<^verbatim>\<open>anthropic.Anthropic(api_key=...).messages.create(...)\<close>, and the string methods
  \<^verbatim>\<open>str.strip()\<close> and \<^verbatim>\<open>str.lower()\<close>. The two string methods work on Unicode text
  (\<^verbatim>\<open>strip\<close> removes every Unicode whitespace character, \<^verbatim>\<open>lower\<close> lowercases
  every cased letter), so they are taken from the environment and not defined here.
\<close>

record env =
  str_strip :: "string \<Rightarrow> string"
  str_lower :: "string \<Rightarrow> string"
  json_dump :: "pyval \<Rightarrow> string"
  json_load :: "string \<Rightarrow> exn + pyval"
  messages_create :: "pyval \<Rightarrow> request \<Rightarrow> exn + block list"

text \<open>
  The file system as far as the program looks at it: whether \<^verbatim>\<open>CONFIG_DIR\<close> exists and
  the text of \<^verbatim>\<open>CONFIG_FILE\<close> when that exists.
\<close>

record filesystem =
  config_dir :: bool
  config_file :: "string option"

datatype out_event = Print string | Prompt string

record world =
  fs :: filesystem
  stdin :: "string list"
  stdout :: "out_event list"
  sent :: "(pyval \<times> request) list"

definition print :: "string \<Rightarrow> world \<Rightarrow> world" where
  "print s w = w\<lparr>stdout := stdout w @ [Print s]\<rparr>"

text \<open>\<^verbatim>\<open>input(prompt)\<close>: writes the prompt, then reads a line or raises \<^verbatim>\<open>EOFError\<close>.\<close>

definition input :: "string \<Rightarrow> world \<Rightarrow> (error + string) \<times> world" where
  "input prompt w =
     (let w' = w\<lparr>stdout := stdout w @ [Prompt prompt]\<rparr>
      in case stdin w' of
           [] \<Rightarrow> (Inl (Uncaught (Exn EOFError ''EOF when reading a line'')), w')
         | l # ls \<Rightarrow> (Inr l, w'\<lparr>stdin := ls\<rparr>))"

subsection \<open>String helpers\<close>

definition nl :: string where
  "nl = [CHR 0x0A]"

definition check_mark :: string where
  "check_mark = [CHR 0xE2, CHR 0x9C, CHR 0x93]"

definition cross_mark :: string where
  "cross_mark = [CHR 0xE2, CHR 0x9D, CHR 0x8C]"

definition magnifier :: string where
  "magnifier = [CHR 0xF0, CHR 0x9F, CHR 0x94, CHR 0x8D]"

text \<open>
  ASCII text and its letter case. On a string of ASCII characters \<^verbatim>\<open>str.lower()\<close>
  replaces \<^verbatim>\<open>A\<close> to \<^verbatim>\<open>Z\<close> by \<^verbatim>\<open>a\<close> to \<^verbatim>\<open>z\<close> and keeps every other character;
  \<open>ascii_lower\<close> is that map, and it is used only to say what the library does on
  ASCII strings. \<open>casing_of a f\<close>: the string \<open>a\<close> is \<open>f\<close> with some of its
  letters \<^verbatim>\<open>a\<close> to \<^verbatim>\<open>z\<close> written in upper case.
\<close>

definition is_ascii :: "string \<Rightarrow> bool" where
  "is_ascii s = list_all (\<lambda>c. (of_char c :: nat) < 128) s"

definition ascii_lower_char :: "char \<Rightarrow> char" where
  "ascii_lower_char c =
     (let n = (of_char c :: nat) in if 65 \<le> n \<and> n \<le> 90 then char_of (n + 32) else c)"

definition ascii_lower :: "string \<Rightarrow> string" where
  "ascii_lower s = map ascii_lower_char s"

definition ascii_upper_char :: "char \<Rightarrow> char" where
  "ascii_upper_char c =
     (let n = (of_char c :: nat) in if 97 \<le> n \<and> n \<le> 122 then char_of (n - 32) else c)"

definition casing_of :: "string \<Rightarrow> string \<Rightarrow> bool" where
  "casing_of a f = list_all2 (\<lambda>c d. c = d \<or> c = ascii_upper_char d) a f"

text \<open>\<^verbatim>\<open>sep.join(xs)\<close>.\<close>

fun join :: "string \<Rightarrow> string list \<Rightarrow> string" where
  "join sep [] = []"
| "join sep [x] = x"
| "join sep (x # y # ys) = x @ sep @ join sep (y # ys)"

section \<open>Credential store\<close>

definition ensure_config_dir :: "filesystem \<Rightarrow> filesystem" where
  "ensure_config_dir f = f\<lparr>config_dir := True\<rparr>"

definition save_api_key :: "env \<Rightarrow> string \<Rightarrow> world \<Rightarrow> world" where
  "save_api_key E api_key w =
     (let f = ensure_config_dir (fs w);
          config = PDict [(''api_key'', PStr api_key)];
          f' = f\<lparr>config_file := Some (json_dump E config)\<rparr>
      in print (check_mark @ '' API key saved successfully!'') (w\<lparr>fs := f'\<rparr>))"

text \<open>\<^verbatim>\<open>config.get("api_key")\<close>: only a dict has \<^verbatim>\<open>get\<close>.\<close>

fun py_get :: "pyval \<Rightarrow> string \<Rightarrow> exn + pyval" where
  "py_get (PDict kvs) k = Inr (case map_of kvs k of None \<Rightarrow> PNone | Some v \<Rightarrow> v)"
| "py_get v k = Inl (Exn AttributeError ''object has no attribute 'get' '')"

definition exists :: "filesystem \<Rightarrow> bool" where
  "exists f = (config_file f \<noteq> None)"

text \<open>
  The body of the \<^verbatim>\<open>try\<close> of \<^verbatim>\<open>load_api_key\<close>, then the function with its bare
  \<^verbatim>\<open>except\<close>.
\<close>

definition load_body :: "env \<Rightarrow> filesystem \<Rightarrow> exn + pyval" where
  "load_body E f =
     (case config_file f of
        None \<Rightarrow> Inl (Exn (OtherException ''FileNotFoundError'') ''No such file or directory'')
      | Some t \<Rightarrow>
          (case json_load E t of
             Inl e \<Rightarrow> Inl e
           | Inr config \<Rightarrow> py_get config ''api_key''))"

definition load_api_key :: "env \<Rightarrow> filesystem \<Rightarrow> exn + pyval" where
  "load_api_key E f =
     (if \<not> exists f then Inr PNone
      else (case load_body E f of Inl e \<Rightarrow> Inr PNone | Inr v \<Rightarrow> Inr v))"

definition remove_api_key :: "world \<Rightarrow> world" where
  "remove_api_key w =
     (if exists (fs w)
      then print (check_mark @ '' API key removed successfully!'')
             (w\<lparr>fs := (fs w)\<lparr>config_file := None\<rparr>\<rparr>)
      else print ''No API key found to remove.'' w)"

definition get_api_key :: "env \<Rightarrow> world \<Rightarrow> (error + pyval) \<times> world" where
  "get_api_key E w =
     (case load_api_key E (fs w) of
        Inl e \<Rightarrow> (Inl (Uncaught e), w)
      | Inr api_key \<Rightarrow>
          if \<not> truthy api_key then
            (let w1 = print (nl @ ''No API key found. Please enter your Anthropic API key.'') w;
                 w2 = print ''(You can get one from https://console.anthropic.com/)'' w1
             in case input ''API Key: '' w2 of
                  (Inl e, w3) \<Rightarrow> (Inl e, w3)
                | (Inr l, w3) \<Rightarrow>
                    (let k = str_strip E l
                     in if k \<noteq> [] then (Inr (PStr k), save_api_key E k w3)
                        else (Inr (PStr k), w3)))
          else (Inr api_key, w))"

section \<open>Search\<close>

definition quote :: string where
  "quote = [CHR 0x27]"

definition separator :: string where
  "separator = replicate 80 (CHR ''='')"

text \<open>The \<^verbatim>\<open>content\<close> f-string of the single user message.\<close>

definition search_content :: "string \<Rightarrow> string \<Rightarrow> string" where
  "search_content keywords location =
     ''Search for current job openings for '' @ quote @ keywords @ quote
       @ '' in or near '' @ quote @ location @ quote @ ''. '' @ nl
     @ replicate 20 (CHR '' '') @ nl
     @ ''Please find recent job listings and provide:'' @ nl
     @ ''1. Job title and company name'' @ nl
     @ ''2. Location'' @ nl
     @ ''3. Brief description or key requirements'' @ nl
     @ ''4. Link to apply (if available)'' @ nl
     @ nl
     @ ''Format the results in a clear, easy-to-read way. Focus on the most relevant and recent postings.''"

definition search_request :: "string \<Rightarrow> string \<Rightarrow> request" where
  "search_request keywords location =
     \<lparr>model = ''claude-sonnet-4-20250514'',
      max_tokens = 4000,
      tools = [[(''type'', ''web_search_20250305''), (''name'', ''web_search'')]],
      messages = [\<lparr>role = ''user'', content = search_content keywords location\<rparr>]\<rparr>"

text \<open>The loop over \<^verbatim>\<open>message.content\<close> that collects the text of the text blocks.\<close>

fun full_response :: "block list \<Rightarrow> string list" where
  "full_response [] = []"
| "full_response (b # bs) =
     (if block_type b = ''text'' then block_text b # full_response bs else full_response bs)"

definition no_results :: string where
  "no_results = ''No results found. Try different keywords or location.''"

text \<open>What \<^verbatim>\<open>search_jobs\<close> prints for a response.\<close>

definition show_response :: "block list \<Rightarrow> world \<Rightarrow> world" where
  "show_response blocks w =
     (let result = join nl (full_response blocks)
      in if result \<noteq> [] then print separator (print result (print separator w))
         else print no_results w)"

definition auth_message :: string where
  "auth_message = nl @ cross_mark @ '' Error: Invalid API key. Please check your API key and try again.''"

definition reset_hint :: string where
  "reset_hint = ''You can reset your API key with: python job_search.py --reset-key''"

text \<open>
  \<^verbatim>\<open>search_jobs\<close>. The request is logged in \<open>sent\<close> when it is submitted; the two
  handlers end in \<^verbatim>\<open>sys.exit(1)\<close>.
\<close>

definition searching_message :: "string \<Rightarrow> string \<Rightarrow> string" where
  "searching_message keywords location =
     nl @ magnifier @ '' Searching for '' @ quote @ keywords @ quote
       @ '' jobs near '' @ location @ ''...'' @ nl"

definition search_jobs :: "env \<Rightarrow> string \<Rightarrow> string \<Rightarrow> pyval \<Rightarrow> world \<Rightarrow> (error + unit) \<times> world" where
  "search_jobs E keywords location api_key w =
     (let w1 = print (searching_message keywords location) w;
          req = search_request keywords location;
          w2 = w1\<lparr>sent := sent w1 @ [(api_key, req)]\<rparr>
      in case messages_create E api_key req of
           Inr blocks \<Rightarrow> (Inr (), show_response blocks w2)
         | Inl e \<Rightarrow>
             if exn_class_of e = AuthenticationError
             then (Inl (SystemExit 1), print reset_hint (print auth_message w2))
             else (Inl (SystemExit 1), print (nl @ cross_mark @ '' Error: '' @ str_exn e) w2))"

section \<open>Command line\<close>

definition help_text :: string where
  "help_text =
     nl @ ''Job Search Tool - Usage:'' @ nl
     @ ''========================'' @ nl
     @ nl
     @ ''Search for jobs:'' @ nl
     @ ''    python job_search.py'' @ nl
     @ nl
     @ ''Manage API key:'' @ nl
     @ ''    --save-key          Save or update your Anthropic API key'' @ nl
     @ ''    --reset-key         Remove saved API key'' @ nl
     @ ''    --help              Show this help message'' @ nl
     @ nl
     @ ''Examples:'' @ nl
     @ ''    python job_search.py'' @ nl
     @ ''    python job_search.py --save-key'' @ nl
     @ ''    python job_search.py --reset-key'' @ nl"

definition print_help :: "world \<Rightarrow> world" where
  "print_help w = print help_text w"

text \<open>The branch of \<^verbatim>\<open>main\<close> taken when there is an argument; \<open>arg\<close> is already lowercased.\<close>

definition dispatch :: "env \<Rightarrow> string \<Rightarrow> world \<Rightarrow> (error + unit) \<times> world" where
  "dispatch E arg w =
     (if arg \<in> set [''--help'', ''-h''] then (Inr (), print_help w)
      else if arg = ''--save-key'' then
        (case input ''API Key: '' (print ''Enter your Anthropic API key:'' w) of
           (Inl e, w1) \<Rightarrow> (Inl e, w1)
         | (Inr l, w1) \<Rightarrow>
             (let api_key = str_strip E l
              in if api_key \<noteq> [] then (Inr (), save_api_key E api_key w1)
                 else (Inr (), print ''No API key entered.'' w1)))
      else if arg = ''--reset-key'' then (Inr (), remove_api_key w)
      else (Inr (), print ''Use --help to see available options.''
                      (print (''Unknown argument: '' @ arg) w)))"

text \<open>
  One pass through the interactive part of \<^verbatim>\<open>main\<close>, up to the answer to
  \<^verbatim>\<open>Search again?\<close>; the result says whether the answer was \<^verbatim>\<open>y\<close>.
\<close>

definition main_round :: "env \<Rightarrow> world \<Rightarrow> (error + bool) \<times> world" where
  "main_round E w =
     (case get_api_key E w of
        (Inl e, w1) \<Rightarrow> (Inl e, w1)
      | (Inr api_key, w1) \<Rightarrow>
          if \<not> truthy api_key
          then (Inl (SystemExit 1), print ''API key is required to search for jobs.'' w1)
          else
            (let w2 = print (nl @ ''Enter job search details:'')
                        (print separator
                          (print (replicate 24 (CHR '' '') @ ''JOB SEARCH TOOL'')
                            (print (nl @ separator) w1)))
             in case input ''Job keywords (e.g., 'software engineer', 'data analyst'): '' w2 of
                  (Inl e, w3) \<Rightarrow> (Inl e, w3)
                | (Inr l1, w3) \<Rightarrow>
                    (case input ''Location (e.g., 'San Francisco', 'Remote', 'New York'): '' w3 of
                       (Inl e, w4) \<Rightarrow> (Inl e, w4)
                     | (Inr l2, w4) \<Rightarrow>
                         (let keywords = str_strip E l1; location = str_strip E l2
                          in if keywords = [] \<or> location = []
                             then (Inl (SystemExit 1),
                                   print ''Both keywords and location are required!'' w4)
                             else
                               (case search_jobs E keywords location api_key w4 of
                                  (Inl e, w5) \<Rightarrow> (Inl e, w5)
                                | (Inr u, w5) \<Rightarrow>
                                    (case input (nl @ ''Search again? (y/n): '')
                                            (print (nl @ separator) w5) of
                                       (Inl e, w6) \<Rightarrow> (Inl e, w6)
                                     | (Inr l3, w6) \<Rightarrow> (Inr (str_lower E (str_strip E l3) = ''y''), w6)))))))"

function main :: "env \<Rightarrow> string list \<Rightarrow> world \<Rightarrow> (error + unit) \<times> world" where
  "main E argv w =
     (if length argv > 1 then dispatch E (str_lower E (argv ! 1)) w
      else
        (case main_round E w of
           (Inl e, w') \<Rightarrow> (Inl e, w')
         | (Inr again, w') \<Rightarrow>
             if again then main E argv w'
             else (Inr (), print (nl @ ''Thank you for using Job Search Tool!'') w')))"
  by pat_completeness auto

text \<open>
  The recursion of \<^verbatim>\<open>main\<close> ends: a pass that asks for another one has read at least
  the answer to \<^verbatim>\<open>Search again?\<close> from the finite input.
\<close>

termination main
proof (relation "measure (\<lambda>(E, argv, w). length (stdin w))")
  show "wf (measure (\<lambda>(E, argv, w). length (stdin w)))" by simp
next
  fix E :: env and argv :: "string list" and w x y xa
  assume round: "(x, y) = main_round E w" "x = Inr xa" "xa"
  have pr: "\<And>s v. stdin (print s v) = stdin v"
    by (simp add: print_def)
  have inp: "\<And>p v l v'. input p v = (Inr l, v') \<Longrightarrow> length (stdin v') < length (stdin v)"
    by (auto simp: input_def Let_def split: list.splits)
  have get: "\<And>v r v'. get_api_key E v = (r, v') \<Longrightarrow> length (stdin v') \<le> length (stdin v)"
    by (auto simp: get_api_key_def input_def print_def save_api_key_def Let_def
          split: sum.splits if_splits list.splits)
  have srch: "\<And>k l a v r v'. search_jobs E k l a v = (r, v') \<Longrightarrow> stdin v' = stdin v"
    by (auto simp: search_jobs_def show_response_def print_def Let_def
          split: sum.splits if_splits)
  have "main_round E w = (Inr xa, y)"
    using round by simp
  then have "length (stdin y) < length (stdin w)"
    unfolding main_round_def
    by (auto simp: Let_def pr split: prod.splits sum.splits if_splits
          dest!: get inp srch)
  then show "((E, argv, y), (E, argv, w)) \<in> measure (\<lambda>(E, argv, w). length (stdin w))"
    by simp
qed

declare main.simps [simp del]

text \<open>The exit status of the process: 0 on return, the argument of \<^verbatim>\<open>sys.exit\<close>, 1 on a traceback.\<close>

fun exit_code :: "error + unit \<Rightarrow> nat" where
  "exit_code (Inr u) = 0"
| "exit_code (Inl (SystemExit n)) = n"
| "exit_code (Inl (Uncaught e)) = 1"

text \<open>A sample environment and a sample credential file, for concrete instances.\<close>

definition sample_text :: string where
  \<open>sample_text = ''{"api_key": "sk-123"}''\<close>

definition sample_env :: env where
  "sample_env =
     \<lparr>str_strip = (\<lambda>s. if s = '' sk-123 '' then ''sk-123'' else if s = '' '' then [] else s),
      str_lower = ascii_lower,
      json_dump = (\<lambda>v. if v = PDict [(''api_key'', PStr ''sk-123'')] then sample_text else ''null''),
      json_load = (\<lambda>t. if t = sample_text then Inr (PDict [(''api_key'', PStr ''sk-123'')])
                        else if t = ''[1]'' then Inr (PList [PInt 1])
                        else if t = ''{}'' then Inr (PDict [])
                        else Inl (Exn JSONDecodeError ''Expecting value'')),
      messages_create = (\<lambda>k r. Inr [])\<rparr>"

definition empty_world :: world where
  "empty_world =
     \<lparr>fs = \<lparr>config_dir = False, config_file = None\<rparr>, stdin = [], stdout = [], sent = []\<rparr>"

definition stored_world :: world where
  "stored_world =
     \<lparr>fs = \<lparr>config_dir = True, config_file = Some sample_text\<rparr>,
      stdin = [], stdout = [], sent = []\<rparr>"

text \<open>Sample remote services: one that rejects the key, one that is unreachable, one that
  answers with two text blocks among tool blocks, one that answers with an empty text block.\<close>

definition auth_env :: env where
  "auth_env = sample_env\<lparr>messages_create := (\<lambda>k r. Inl (Exn AuthenticationError ''invalid x-api-key''))\<rparr>"

definition down_env :: env where
  "down_env = sample_env\<lparr>messages_create :=
     (\<lambda>k r. Inl (Exn (OtherException ''APIConnectionError'') ''Connection error.''))\<rparr>"

definition text_env :: env where
  "text_env = sample_env\<lparr>messages_create :=
     (\<lambda>k r. Inr [\<lparr>block_type = ''server_tool_use'', block_text = []\<rparr>,
                  \<lparr>block_type = ''text'', block_text = ''Job A details''\<rparr>,
                  \<lparr>block_type = ''web_search_tool_result'', block_text = []\<rparr>,
                  \<lparr>block_type = ''text'', block_text = ''Job B details''\<rparr>])\<rparr>"

definition empty_text_env :: env where
  "empty_text_env = sample_env\<lparr>messages_create :=
     (\<lambda>k r. Inr [\<lparr>block_type = ''text'', block_text = []\<rparr>])\<rparr>"

section \<open>Properties of the credential store\<close>

text \<open>
  C1. Saving a secret and then loading from the resulting file system returns exactly
  that secret, for every secret string, provided the library's \<^verbatim>\<open>json.load\<close> reads back
  what its \<^verbatim>\<open>json.dump\<close> wrote for the one-field record.
\<close>

theorem save_load_roundtrip:
  assumes "json_load E (json_dump E (PDict [(''api_key'', PStr secret)]))
             = Inr (PDict [(''api_key'', PStr secret)])"
  shows "load_api_key E (fs (save_api_key E secret w)) = Inr (PStr secret)"
  using assms
  by (simp add: load_api_key_def load_body_def save_api_key_def print_def
        ensure_config_dir_def exists_def Let_def)

theorem save_load_roundtrip_witness:
  "load_api_key sample_env (fs (save_api_key sample_env ''sk-123'' empty_world))
     = Inr (PStr ''sk-123'')"
  using save_load_roundtrip [of sample_env "''sk-123''" empty_world]
  by (simp add: sample_env_def)

text \<open>
  C2. \<^verbatim>\<open>load_api_key\<close> never raises: on every file system it returns a value. That
  value is \<^verbatim>\<open>None\<close> when the file does not exist and when \<^verbatim>\<open>json.load\<close> fails on
  its text; it is the value stored under \<^verbatim>\<open>api_key\<close> when the file parses to a
  record that has the field.
\<close>

theorem load_api_key_never_raises:
  "(\<exists>v. load_api_key E f = Inr v)
   \<and> (config_file f = None \<longrightarrow> load_api_key E f = Inr PNone)
   \<and> (\<forall>t e. config_file f = Some t \<and> json_load E t = Inl e \<longrightarrow> load_api_key E f = Inr PNone)
   \<and> (\<forall>t kvs v. config_file f = Some t \<and> json_load E t = Inr (PDict kvs)
          \<and> map_of kvs ''api_key'' = Some v \<longrightarrow> load_api_key E f = Inr v)"
  by (auto simp: load_api_key_def load_body_def exists_def split: sum.splits option.splits)

theorem load_api_key_never_raises_witness:
  "load_api_key sample_env \<lparr>config_dir = False, config_file = None\<rparr> = Inr PNone
   \<and> load_api_key sample_env \<lparr>config_dir = True, config_file = Some ''{not json''\<rparr> = Inr PNone
   \<and> load_api_key sample_env \<lparr>config_dir = True, config_file = Some sample_text\<rparr>
       = Inr (PStr ''sk-123'')"
proof -
  have a: "json_load sample_env ''{not json'' = Inl (Exn JSONDecodeError ''Expecting value'')"
    by (simp add: sample_env_def sample_text_def)
  have b: "json_load sample_env sample_text = Inr (PDict [(''api_key'', PStr ''sk-123'')])"
    by (simp add: sample_env_def)
  show ?thesis
    using load_api_key_never_raises [of sample_env "\<lparr>config_dir = False, config_file = None\<rparr>"]
      load_api_key_never_raises [of sample_env "\<lparr>config_dir = True, config_file = Some ''{not json''\<rparr>"]
      load_api_key_never_raises [of sample_env "\<lparr>config_dir = True, config_file = Some sample_text\<rparr>"]
      a b
    by simp
qed

text \<open>
  C9. When the text of the file parses to a value that is not a dict (the call of
  \<^verbatim>\<open>get\<close> then raises \<^verbatim>\<open>AttributeError\<close>, which the bare \<^verbatim>\<open>except\<close> catches), or
  to a dict without the key \<^verbatim>\<open>api_key\<close>, \<^verbatim>\<open>load_api_key\<close> returns \<^verbatim>\<open>None\<close> and
  does not raise.
\<close>

theorem load_api_key_wrong_shape:
  assumes "config_file f = Some t" and "json_load E t = Inr v"
    and "(\<forall>kvs. v \<noteq> PDict kvs) \<or> (\<exists>kvs. v = PDict kvs \<and> map_of kvs ''api_key'' = None)"
  shows "load_api_key E f = Inr PNone"
  using assms
  by (cases v) (auto simp: load_api_key_def load_body_def exists_def)

theorem load_api_key_wrong_shape_witness:
  "load_api_key sample_env \<lparr>config_dir = True, config_file = Some ''[1]''\<rparr> = Inr PNone
   \<and> load_api_key sample_env \<lparr>config_dir = True, config_file = Some ''{}''\<rparr> = Inr PNone"
proof -
  have a: "json_load sample_env ''[1]'' = Inr (PList [PInt 1])"
    by (simp add: sample_env_def sample_text_def)
  have b: "json_load sample_env ''{}'' = Inr (PDict [])"
    by (simp add: sample_env_def sample_text_def)
  have 1: "load_api_key sample_env \<lparr>config_dir = True, config_file = Some ''[1]''\<rparr> = Inr PNone"
    by (rule load_api_key_wrong_shape [OF _ a]) simp_all
  have 2: "load_api_key sample_env \<lparr>config_dir = True, config_file = Some ''{}''\<rparr> = Inr PNone"
    by (rule load_api_key_wrong_shape [OF _ b]) simp_all
  from 1 2 show ?thesis by simp
qed

text \<open>
  C6. \<^verbatim>\<open>remove_api_key\<close>: when the file exists it is deleted, the deletion is
  reported, and a load from the resulting file system returns \<^verbatim>\<open>None\<close>; when it does
  not exist the program reports that there was nothing to remove and the file system is
  unchanged. Either way no file is left, so a second removal changes nothing.
\<close>

theorem remove_api_key_spec:
  "(exists (fs w) \<longrightarrow>
      fs (remove_api_key w) = (fs w)\<lparr>config_file := None\<rparr>
      \<and> stdout (remove_api_key w)
           = stdout w @ [Print (check_mark @ '' API key removed successfully!'')]
      \<and> load_api_key E (fs (remove_api_key w)) = Inr PNone)
   \<and> (\<not> exists (fs w) \<longrightarrow>
      fs (remove_api_key w) = fs w
      \<and> stdout (remove_api_key w) = stdout w @ [Print ''No API key found to remove.''])
   \<and> \<not> exists (fs (remove_api_key w))
   \<and> fs (remove_api_key (remove_api_key w)) = fs (remove_api_key w)
   \<and> stdin (remove_api_key w) = stdin w \<and> sent (remove_api_key w) = sent w"
  by (simp add: remove_api_key_def print_def exists_def load_api_key_def)

theorem remove_api_key_spec_witness:
  "exists (fs stored_world)
   \<and> fs (remove_api_key stored_world) = (fs stored_world)\<lparr>config_file := None\<rparr>
   \<and> load_api_key sample_env (fs (remove_api_key stored_world)) = Inr PNone
   \<and> \<not> exists (fs empty_world)
   \<and> fs (remove_api_key empty_world) = fs empty_world
   \<and> stdout (remove_api_key empty_world)
       = stdout empty_world @ [Print ''No API key found to remove.'']"
proof -
  have h1: "exists (fs stored_world)"
    by (simp add: stored_world_def exists_def)
  have h2: "\<not> exists (fs empty_world)"
    by (simp add: empty_world_def exists_def)
  show ?thesis
    using h1 h2 remove_api_key_spec [of stored_world sample_env]
      remove_api_key_spec [of empty_world sample_env]
    by blast
qed

text \<open>
  C7. \<^verbatim>\<open>get_api_key\<close>: when the loaded value is present (true in Python's sense, so
  neither \<^verbatim>\<open>None\<close> nor empty) it is returned and nothing is printed, read or
  written. Otherwise the operator is prompted; the value entered is the line read with
  \<^verbatim>\<open>str.strip()\<close> applied, it is returned, and it is written to the store exactly when
  it is not empty. When there is no line to read, \<^verbatim>\<open>input\<close> raises \<^verbatim>\<open>EOFError\<close> and
  nothing is written.
\<close>

theorem get_api_key_spec:
  assumes "load_api_key E (fs w) = Inr v"
  shows "(truthy v \<longrightarrow> get_api_key E w = (Inr v, w))
    \<and> (\<not> truthy v \<longrightarrow> (\<forall>l ls. stdin w = l # ls \<longrightarrow>
          fst (get_api_key E w) = Inr (PStr (str_strip E l))
          \<and> stdin (snd (get_api_key E w)) = ls
          \<and> sent (snd (get_api_key E w)) = sent w
          \<and> (str_strip E l \<noteq> [] \<longrightarrow>
                fs (snd (get_api_key E w))
                  = \<lparr>config_dir = True,
                     config_file = Some (json_dump E (PDict [(''api_key'', PStr (str_strip E l))]))\<rparr>
                \<and> stdout (snd (get_api_key E w))
                    = stdout w
                      @ [Print (nl @ ''No API key found. Please enter your Anthropic API key.''),
                         Print ''(You can get one from https://console.anthropic.com/)'',
                         Prompt ''API Key: '',
                         Print (check_mark @ '' API key saved successfully!'')])
          \<and> (str_strip E l = [] \<longrightarrow>
                fs (snd (get_api_key E w)) = fs w
                \<and> stdout (snd (get_api_key E w))
                    = stdout w
                      @ [Print (nl @ ''No API key found. Please enter your Anthropic API key.''),
                         Print ''(You can get one from https://console.anthropic.com/)'',
                         Prompt ''API Key: ''])))
    \<and> (\<not> truthy v \<and> stdin w = [] \<longrightarrow>
          fst (get_api_key E w) = Inl (Uncaught (Exn EOFError ''EOF when reading a line''))
          \<and> fs (snd (get_api_key E w)) = fs w)"
  using assms
  by (auto simp: get_api_key_def input_def print_def save_api_key_def ensure_config_dir_def Let_def)

theorem get_api_key_spec_witness:
  "get_api_key sample_env stored_world = (Inr (PStr ''sk-123''), stored_world)
   \<and> fst (get_api_key sample_env (empty_world\<lparr>stdin := ['' sk-123 '']\<rparr>)) = Inr (PStr ''sk-123'')
   \<and> config_file (fs (snd (get_api_key sample_env (empty_world\<lparr>stdin := ['' sk-123 '']\<rparr>))))
       = Some sample_text
   \<and> fs (snd (get_api_key sample_env (empty_world\<lparr>stdin := ['' '']\<rparr>))) = fs empty_world
   \<and> fst (get_api_key sample_env empty_world)
       = Inl (Uncaught (Exn EOFError ''EOF when reading a line''))"
proof -
  have l1: "load_api_key sample_env (fs stored_world) = Inr (PStr ''sk-123'')"
    by (simp add: load_api_key_def load_body_def exists_def stored_world_def sample_env_def)
  have l2: "\<And>ls. load_api_key sample_env (fs (empty_world\<lparr>stdin := ls\<rparr>)) = Inr PNone"
    by (simp add: load_api_key_def exists_def empty_world_def)
  have l3: "load_api_key sample_env (fs empty_world) = Inr PNone"
    by (simp add: load_api_key_def exists_def empty_world_def)
  have s1: "str_strip sample_env '' sk-123 '' = ''sk-123''"
    by (simp add: sample_env_def)
  have s2: "str_strip sample_env '' '' = []"
    by (simp add: sample_env_def)
  show ?thesis
    using get_api_key_spec [OF l1] get_api_key_spec [OF l2, of "['' sk-123 '']"]
      get_api_key_spec [OF l2, of "['' '']"] get_api_key_spec [OF l3] s1 s2
    by (simp add: sample_env_def empty_world_def)
qed

section \<open>Properties of the search\<close>

text \<open>
  C3. When the remote call raises, \<^verbatim>\<open>search_jobs\<close> ends in \<^verbatim>\<open>sys.exit(1)\<close>. For
  an \<^verbatim>\<open>AuthenticationError\<close> it prints the invalid-key message and the hint that
  names \<^verbatim>\<open>--reset-key\<close>; for an exception of any other class it prints the generic
  line that ends in \<^verbatim>\<open>str(e)\<close>. The reset hint is printed for an
  \<^verbatim>\<open>AuthenticationError\<close> and for no other exception.
\<close>

theorem search_jobs_errors:
  assumes "messages_create E api_key (search_request keywords location) = Inl e"
  shows "fst (search_jobs E keywords location api_key w) = Inl (SystemExit 1)
    \<and> exit_code (fst (search_jobs E keywords location api_key w)) = 1
    \<and> (exn_class_of e = AuthenticationError \<longrightarrow>
          stdout (snd (search_jobs E keywords location api_key w))
            = stdout w @ [Print (searching_message keywords location),
                          Print auth_message, Print reset_hint])
    \<and> (exn_class_of e \<noteq> AuthenticationError \<longrightarrow>
          stdout (snd (search_jobs E keywords location api_key w))
            = stdout w @ [Print (searching_message keywords location),
                          Print (nl @ cross_mark @ '' Error: '' @ str_exn e)])
    \<and> (Print reset_hint \<in> set (drop (length (stdout w))
                                  (stdout (snd (search_jobs E keywords location api_key w))))
          \<longleftrightarrow> exn_class_of e = AuthenticationError)
    \<and> sublist ''--reset-key'' reset_hint
    \<and> sublist (str_exn e) (nl @ cross_mark @ '' Error: '' @ str_exn e)"
proof -
  have a: "sublist ''--reset-key'' reset_hint"
    unfolding reset_hint_def sublist_def
    by (rule exI [of _ "''You can reset your API key with: python job_search.py ''"],
        rule exI [of _ "[]"]) simp
  have b: "sublist (str_exn e) (nl @ cross_mark @ '' Error: '' @ str_exn e)"
    unfolding sublist_def
    by (rule exI [of _ "nl @ cross_mark @ '' Error: ''"], rule exI [of _ "[]"]) simp
  have c: "Print reset_hint \<noteq> Print (searching_message keywords location)"
    "Print reset_hint \<noteq> Print (nl @ cross_mark @ '' Error: '' @ str_exn e)"
    by (simp_all add: reset_hint_def searching_message_def nl_def)
  show ?thesis
    using assms a b c
    by (simp add: search_jobs_def print_def Let_def)
qed

theorem search_jobs_errors_witness:
  "fst (search_jobs auth_env ''nurse'' ''Leeds'' (PStr ''bad'') empty_world) = Inl (SystemExit 1)
   \<and> stdout (snd (search_jobs auth_env ''nurse'' ''Leeds'' (PStr ''bad'') empty_world))
       = [Print (searching_message ''nurse'' ''Leeds''), Print auth_message, Print reset_hint]
   \<and> fst (search_jobs down_env ''nurse'' ''Leeds'' (PStr ''sk-123'') empty_world) = Inl (SystemExit 1)
   \<and> stdout (snd (search_jobs down_env ''nurse'' ''Leeds'' (PStr ''sk-123'') empty_world))
       = [Print (searching_message ''nurse'' ''Leeds''),
          Print (nl @ cross_mark @ '' Error: Connection error.'')]"
proof -
  have a: "messages_create auth_env (PStr ''bad'') (search_request ''nurse'' ''Leeds'')
      = Inl (Exn AuthenticationError ''invalid x-api-key'')"
    by (simp add: auth_env_def)
  have b: "messages_create down_env (PStr ''sk-123'') (search_request ''nurse'' ''Leeds'')
      = Inl (Exn (OtherException ''APIConnectionError'') ''Connection error.'')"
    by (simp add: down_env_def)
  show ?thesis
    using search_jobs_errors [OF a, of empty_world] search_jobs_errors [OF b, of empty_world]
    by (simp add: empty_world_def)
qed

text \<open>Two facts about the response loop and the join, used below.\<close>

lemma join_nl_empty: "join nl xs = [] \<longleftrightarrow> xs = [] \<or> xs = [[]]"
  by (induction nl xs rule: join.induct) (simp_all add: nl_def)

lemma full_response_filter:
  "full_response blocks = map block_text (filter (\<lambda>b. block_type b = ''text'') blocks)"
  by (induction blocks) simp_all

text \<open>
  C4, as stated, fails: a response whose only text block has empty text contains one text
  segment, and the program prints the no-results notice, because it tests the joined
  string and not the number of text blocks.
\<close>

theorem no_results_counterexample:
  "messages_create empty_text_env (PStr ''sk-123'') (search_request ''nurse'' ''Leeds'')
     = Inr [\<lparr>block_type = ''text'', block_text = []\<rparr>]
   \<and> map block_type [\<lparr>block_type = ''text'', block_text = []\<rparr>] = [''text'']
   \<and> stdout (snd (search_jobs empty_text_env ''nurse'' ''Leeds'' (PStr ''sk-123'') empty_world))
       = [Print (searching_message ''nurse'' ''Leeds''), Print no_results]"
  by (simp add: empty_text_env_def search_jobs_def show_response_def print_def Let_def
        empty_world_def)

text \<open>
  C4, amended. The collected texts are those of exactly the blocks of type \<^verbatim>\<open>text\<close>, in
  response order. When their newline-joined string is not empty, it is printed between
  two separator lines; when it is empty, the no-results notice is printed and no
  separator line. The joined string is empty exactly when there is no text block or a
  single text block with empty text.
\<close>

theorem search_jobs_display:
  assumes "messages_create E api_key (search_request keywords location) = Inr blocks"
  shows "full_response blocks = map block_text (filter (\<lambda>b. block_type b = ''text'') blocks)
    \<and> fst (search_jobs E keywords location api_key w) = Inr ()
    \<and> (join nl (full_response blocks) \<noteq> [] \<longrightarrow>
          stdout (snd (search_jobs E keywords location api_key w))
            = stdout w @ [Print (searching_message keywords location), Print separator,
                          Print (join nl (full_response blocks)), Print separator])
    \<and> (join nl (full_response blocks) = [] \<longrightarrow>
          stdout (snd (search_jobs E keywords location api_key w))
            = stdout w @ [Print (searching_message keywords location), Print no_results]
          \<and> Print separator \<notin> set (drop (length (stdout w))
                 (stdout (snd (search_jobs E keywords location api_key w)))))
    \<and> (join nl (full_response blocks) = []
          \<longleftrightarrow> full_response blocks = [] \<or> full_response blocks = [[]])"
proof -
  have h: "hd separator = CHR ''=''"
    by (simp add: separator_def)
  have "hd (searching_message keywords location) \<noteq> hd separator"
    "hd no_results \<noteq> hd separator"
    unfolding h by (simp_all add: searching_message_def nl_def no_results_def)
  then have c: "Print separator \<noteq> Print (searching_message keywords location)"
    "Print separator \<noteq> Print no_results"
    by auto
  show ?thesis
    using assms c
    by (simp add: search_jobs_def show_response_def print_def Let_def
          join_nl_empty full_response_filter)
qed

theorem search_jobs_display_witness:
  "stdout (snd (search_jobs text_env ''nurse'' ''Leeds'' (PStr ''sk-123'') empty_world))
     = [Print (searching_message ''nurse'' ''Leeds''), Print separator,
        Print (''Job A details'' @ nl @ ''Job B details''), Print separator]
   \<and> stdout (snd (search_jobs sample_env ''nurse'' ''Leeds'' (PStr ''sk-123'') empty_world))
     = [Print (searching_message ''nurse'' ''Leeds''), Print no_results]"
proof -
  have a: "messages_create text_env (PStr ''sk-123'') (search_request ''nurse'' ''Leeds'')
      = Inr [\<lparr>block_type = ''server_tool_use'', block_text = []\<rparr>,
             \<lparr>block_type = ''text'', block_text = ''Job A details''\<rparr>,
             \<lparr>block_type = ''web_search_tool_result'', block_text = []\<rparr>,
             \<lparr>block_type = ''text'', block_text = ''Job B details''\<rparr>]"
    by (simp add: text_env_def)
  have b: "messages_create sample_env (PStr ''sk-123'') (search_request ''nurse'' ''Leeds'') = Inr []"
    by (simp add: sample_env_def)
  show ?thesis
    using search_jobs_display [OF a, of empty_world] search_jobs_display [OF b, of empty_world]
    by (simp add: empty_world_def nl_def)
qed

text \<open>
  C5. For every keywords and location, \<^verbatim>\<open>search_jobs\<close> submits one request; it holds a
  single message of role \<^verbatim>\<open>user\<close> whose content contains the keywords and the
  location as contiguous substrings, and its \<^verbatim>\<open>max_tokens\<close> is 4000.
\<close>

theorem search_jobs_request:
  "sent (snd (search_jobs E keywords location api_key w))
     = sent w @ [(api_key, search_request keywords location)]
   \<and> messages (search_request keywords location)
       = [\<lparr>role = ''user'', content = search_content keywords location\<rparr>]
   \<and> sublist keywords (search_content keywords location)
   \<and> sublist location (search_content keywords location)
   \<and> max_tokens (search_request keywords location) = 4000"
proof -
  have k: "sublist keywords (search_content keywords location)"
    unfolding search_content_def sublist_def
    by (rule exI [of _ "''Search for current job openings for '' @ quote"]) auto
  have l: "sublist location (search_content keywords location)"
    unfolding search_content_def sublist_def
    by (rule exI [of _ "''Search for current job openings for '' @ quote @ keywords @ quote
          @ '' in or near '' @ quote"]) auto
  have s: "sent (snd (search_jobs E keywords location api_key w))
     = sent w @ [(api_key, search_request keywords location)]"
    by (simp add: search_jobs_def show_response_def print_def Let_def split: sum.splits)
  show ?thesis
    using k l s by (simp add: search_request_def)
qed

theorem search_jobs_request_witness:
  "sent (snd (search_jobs sample_env ''software engineer'' ''Remote'' (PStr ''sk-123'') empty_world))
     = [(PStr ''sk-123'', search_request ''software engineer'' ''Remote'')]
   \<and> sublist ''software engineer'' (search_content ''software engineer'' ''Remote'')
   \<and> sublist ''Remote'' (search_content ''software engineer'' ''Remote'')
   \<and> max_tokens (search_request ''software engineer'' ''Remote'') = 4000"
  using search_jobs_request [of sample_env "''software engineer''" "''Remote''" "PStr ''sk-123''"
      empty_world]
  by (simp add: empty_world_def)

section \<open>Properties of the command line\<close>

text \<open>
  Letter case on ASCII text: a casing of a string without upper-case letters is an ASCII
  string whose ASCII lowercase form is that string. The four flags are such strings.
\<close>

lemma casing_char:
  assumes "(of_char d :: nat) < 128" and "\<not> (65 \<le> (of_char d :: nat) \<and> (of_char d :: nat) \<le> 90)"
    and "c = d \<or> c = ascii_upper_char d"
  shows "(of_char c :: nat) < 128 \<and> ascii_lower_char c = d"
proof (cases "97 \<le> (of_char d :: nat) \<and> (of_char d :: nat) \<le> 122")
  case True
  show ?thesis
  proof (cases "c = d")
    case True
    with assms show ?thesis by (auto simp: ascii_lower_char_def Let_def)
  next
    case False
    with assms have c: "c = char_of ((of_char d :: nat) - 32)"
      using True by (simp add: ascii_upper_char_def)
    have "(of_char d :: nat) - 32 < 256"
      using True by linarith
    then have m: "((of_char d :: nat) - 32) mod 256 = of_char d - 32"
      by (rule mod_less)
    have o: "(of_char c :: nat) = of_char d - 32"
      unfolding c by (simp only: of_char_of m)
    have r: "65 \<le> (of_char c :: nat) \<and> (of_char c :: nat) \<le> 90"
      using True o by linarith
    have e: "(of_char c :: nat) + 32 = of_char d"
      using True o by linarith
    have "ascii_lower_char c = char_of ((of_char c :: nat) + 32)"
      using r by (simp add: ascii_lower_char_def Let_def)
    also have "\<dots> = char_of (of_char d :: nat)"
      by (simp only: e)
    also have "\<dots> = d"
      by simp
    finally have "ascii_lower_char c = d" .
    moreover have "(of_char c :: nat) < 128"
      using r by linarith
    ultimately show ?thesis by simp
  qed
next
  case False
  with assms show ?thesis
    by (auto simp: ascii_upper_char_def ascii_lower_char_def Let_def)
qed

lemma casing_lower:
  assumes "list_all (\<lambda>d. (of_char d :: nat) < 128 \<and> \<not> (65 \<le> (of_char d :: nat) \<and> (of_char d :: nat) \<le> 90)) f"
    and "casing_of a f"
  shows "is_ascii a \<and> ascii_lower a = f"
  using assms(2) assms(1) unfolding casing_of_def is_ascii_def ascii_lower_def
proof (induction a f rule: list_all2_induct)
  case Nil
  then show ?case by simp
next
  case (Cons c a d f)
  then show ?case using casing_char [of d c] by simp
qed

lemma flags_plain:
  "list_all (\<lambda>d. (of_char d :: nat) < 128 \<and> \<not> (65 \<le> (of_char d :: nat) \<and> (of_char d :: nat) \<le> 90)) ''--help''"
  "list_all (\<lambda>d. (of_char d :: nat) < 128 \<and> \<not> (65 \<le> (of_char d :: nat) \<and> (of_char d :: nat) \<le> 90)) ''-h''"
  "list_all (\<lambda>d. (of_char d :: nat) < 128 \<and> \<not> (65 \<le> (of_char d :: nat) \<and> (of_char d :: nat) \<le> 90)) ''--save-key''"
  "list_all (\<lambda>d. (of_char d :: nat) < 128 \<and> \<not> (65 \<le> (of_char d :: nat) \<and> (of_char d :: nat) \<le> 90)) ''--reset-key''"
  by simp_all

lemma flags_casing_lower:
  assumes "\<forall>s. is_ascii s \<longrightarrow> str_lower E s = ascii_lower s"
    and "f \<in> {''--help'', ''-h'', ''--save-key'', ''--reset-key''}"
    and "casing_of x f"
  shows "str_lower E x = f"
proof -
  have "list_all (\<lambda>d. (of_char d :: nat) < 128
           \<and> \<not> (65 \<le> (of_char d :: nat) \<and> (of_char d :: nat) \<le> 90)) f"
    using assms(2) flags_plain by blast
  then have "is_ascii x \<and> ascii_lower x = f"
    using assms(3) by (rule casing_lower)
  then show ?thesis
    using assms(1) by simp
qed

lemma casing_of_refl: "casing_of f f"
  by (simp add: casing_of_def list_all2_same)

lemma dispatch_flags:
  "dispatch E ''--help'' w = (Inr (), print_help w)"
  "dispatch E ''-h'' w = (Inr (), print_help w)"
  "dispatch E ''--reset-key'' w = (Inr (), remove_api_key w)"
  by (simp_all add: dispatch_def)

text \<open>
  C8. When the first argument, lowercased by \<^verbatim>\<open>str.lower()\<close> as \<^verbatim>\<open>main\<close> does before
  it compares, is none of \<^verbatim>\<open>--help\<close>, \<^verbatim>\<open>-h\<close>, \<^verbatim>\<open>--save-key\<close>,
  \<^verbatim>\<open>--reset-key\<close>, the program prints the unknown-argument notice, which echoes the
  lowercased argument, and returns (exit status 0). Nothing is read from the input, the
  file system is as before, no request is submitted, and the outcome does not depend on the
  content of the store.
\<close>

theorem unknown_argument:
  assumes "length argv > 1"
    and "str_lower E (argv ! 1) \<notin> {''--help'', ''-h'', ''--save-key'', ''--reset-key''}"
  shows "main E argv w
           = (Inr (), w\<lparr>stdout := stdout w
                 @ [Print (''Unknown argument: '' @ str_lower E (argv ! 1)),
                    Print ''Use --help to see available options.'']\<rparr>)
    \<and> exit_code (fst (main E argv w)) = 0
    \<and> fs (snd (main E argv w)) = fs w
    \<and> stdin (snd (main E argv w)) = stdin w
    \<and> sent (snd (main E argv w)) = sent w"
  using assms
  by (simp add: main.simps [of E argv w] dispatch_def print_def)

theorem unknown_argument_witness:
  "main sample_env [''job_search.py'', ''--Version''] stored_world
     = (Inr (), stored_world\<lparr>stdout := stdout stored_world
           @ [Print ''Unknown argument: --version'',
              Print ''Use --help to see available options.'']\<rparr>)"
proof -
  have a: "length [''job_search.py'', ''--Version''] > 1" by simp
  have l: "ascii_lower ''--Version'' = ''--version''"
    by code_simp
  have b: "str_lower sample_env ([''job_search.py'', ''--Version''] ! 1)
             \<notin> {''--help'', ''-h'', ''--save-key'', ''--reset-key''}"
    by (simp add: sample_env_def l)
  show ?thesis
    using unknown_argument [OF a b, of stored_world] by (simp add: sample_env_def l)
qed

text \<open>
  C10. \<^verbatim>\<open>main\<close> dispatches on the lowercased first argument, for every argument: two
  arguments with the same lowercase form select the same action. Since \<^verbatim>\<open>str.lower()\<close>
  maps ASCII text to its ASCII lowercase form, every casing of \<^verbatim>\<open>--help\<close>,
  \<^verbatim>\<open>-h\<close>, \<^verbatim>\<open>--save-key\<close> or \<^verbatim>\<open>--reset-key\<close> lowercases to that flag and behaves as
  the lowercase flag does.
\<close>

theorem flags_case_insensitive:
  "main E (prog # a # rest) w = dispatch E (str_lower E a) w
   \<and> (\<forall>b. str_lower E a = str_lower E b \<longrightarrow>
          main E (prog # a # rest) w = main E (prog # b # rest) w)
   \<and> ((\<forall>s. is_ascii s \<longrightarrow> str_lower E s = ascii_lower s) \<longrightarrow>
        (\<forall>f \<in> {''--help'', ''-h'', ''--save-key'', ''--reset-key''}.
           casing_of a f \<longrightarrow>
             str_lower E a = f \<and> main E (prog # a # rest) w = main E (prog # f # rest) w)
        \<and> (casing_of a ''--help'' \<or> casing_of a ''-h'' \<longrightarrow>
              main E (prog # a # rest) w = (Inr (), print_help w))
        \<and> (casing_of a ''--reset-key'' \<longrightarrow>
              main E (prog # a # rest) w = (Inr (), remove_api_key w))
        \<and> (casing_of a ''--save-key'' \<longrightarrow>
              main E (prog # a # rest) w = dispatch E ''--save-key'' w))"
proof -
  have m: "\<And>x. main E (prog # x # rest) w = dispatch E (str_lower E x) w"
    by (simp add: main.simps [of E "prog # _ # rest" w])
  have p2: "\<forall>b. str_lower E a = str_lower E b \<longrightarrow>
          main E (prog # a # rest) w = main E (prog # b # rest) w"
    by (simp add: m)
  have p3: "(\<forall>f \<in> {''--help'', ''-h'', ''--save-key'', ''--reset-key''}.
           casing_of a f \<longrightarrow>
             str_lower E a = f \<and> main E (prog # a # rest) w = main E (prog # f # rest) w)
        \<and> (casing_of a ''--help'' \<or> casing_of a ''-h'' \<longrightarrow>
              main E (prog # a # rest) w = (Inr (), print_help w))
        \<and> (casing_of a ''--reset-key'' \<longrightarrow>
              main E (prog # a # rest) w = (Inr (), remove_api_key w))
        \<and> (casing_of a ''--save-key'' \<longrightarrow>
              main E (prog # a # rest) w = dispatch E ''--save-key'' w)"
    if H: "\<forall>s. is_ascii s \<longrightarrow> str_lower E s = ascii_lower s"
  proof -
    have k: "str_lower E x = f"
      if "f \<in> {''--help'', ''-h'', ''--save-key'', ''--reset-key''}" "casing_of x f" for x f
      using H that by (rule flags_casing_lower)
    have a1: "str_lower E a = f \<and> main E (prog # a # rest) w = main E (prog # f # rest) w"
      if "f \<in> {''--help'', ''-h'', ''--save-key'', ''--reset-key''}" "casing_of a f" for f
    proof -
      have "str_lower E a = f" using that by (rule k)
      moreover have "str_lower E f = f" using that(1) casing_of_refl by (rule k)
      ultimately show ?thesis by (simp add: m)
    qed
    have a2: "main E (prog # a # rest) w = (Inr (), print_help w)"
      if "casing_of a ''--help'' \<or> casing_of a ''-h''"
    proof -
      from that have "str_lower E a = ''--help'' \<or> str_lower E a = ''-h''"
        using k [of "''--help''" a] k [of "''-h''" a] by blast
      then show ?thesis
        using dispatch_flags(1,2) [of E w] by (auto simp: m)
    qed
    have a3: "main E (prog # a # rest) w = (Inr (), remove_api_key w)"
      if "casing_of a ''--reset-key''"
    proof -
      from that have "str_lower E a = ''--reset-key''"
        using k [of "''--reset-key''" a] by blast
      then show ?thesis
        using dispatch_flags(3) [of E w] by (simp add: m)
    qed
    have a4: "main E (prog # a # rest) w = dispatch E ''--save-key'' w"
      if "casing_of a ''--save-key''"
    proof -
      from that have "str_lower E a = ''--save-key''"
        using k [of "''--save-key''" a] by blast
      then show ?thesis by (simp add: m)
    qed
    from a1 a2 a3 a4 show ?thesis by blast
  qed
  from m p2 p3 show ?thesis by blast
qed

theorem flags_case_insensitive_witness:
  "casing_of ''--HELP'' ''--help''
   \<and> main sample_env [''job_search.py'', ''--HELP''] empty_world
       = main sample_env [''job_search.py'', ''--help''] empty_world
   \<and> main sample_env [''job_search.py'', ''--HELP''] empty_world = (Inr (), print_help empty_world)
   \<and> casing_of ''--Reset-Key'' ''--reset-key''
   \<and> main sample_env [''job_search.py'', ''--Reset-Key''] stored_world
       = (Inr (), remove_api_key stored_world)"
proof -
  have H: "\<forall>s. is_ascii s \<longrightarrow> str_lower sample_env s = ascii_lower s"
    by (simp add: sample_env_def)
  have a: "casing_of ''--HELP'' ''--help''" "casing_of ''--Reset-Key'' ''--reset-key''"
    by code_simp+
  note h = flags_case_insensitive [of sample_env "''job_search.py''" "''--HELP''" "[]" empty_world]
  note r = flags_case_insensitive [of sample_env "''job_search.py''" "''--Reset-Key''" "[]" stored_world]
  have 1: "main sample_env [''job_search.py'', ''--HELP''] empty_world
     = main sample_env [''job_search.py'', ''--help''] empty_world"
    using h H a(1) by blast
  have 2: "main sample_env [''job_search.py'', ''--HELP''] empty_world
     = (Inr (), print_help empty_world)"
    using h H a(1) by blast
  have 3: "main sample_env [''job_search.py'', ''--Reset-Key''] stored_world
     = (Inr (), remove_api_key stored_world)"
    using r H a(2) by blast
  from a 1 2 3 show ?thesis by blast
qed

end
